theory Spec2Isabelle
  imports Complex_Main
begin

section \<open>Crypto tracker: the fetch, cache and routing core of main.py\<close>

text \<open>
  The development follows \<^verbatim>\<open>src/main.py\<close>. The widget tree, the theme and the
  drawing library are kept only as far as the handlers read or write them: the table is
  the list of its rows with the item of column 0 (text, \<^verbatim>\<open>Qt.UserRole\<close>,
  \<^verbatim>\<open>Qt.UserRole + 1\<close>), a message box is an entry appended to \<open>dialogs\<close>, the canvas
  holds the arguments of the last \<^verbatim>\<open>draw_candlestick\<close> call that returned. Columns 1 to
  7 of the table hold formatted floating point numbers and are left out.

  What lies outside the program is an argument of the function that uses it: the clock
  (\<^verbatim>\<open>datetime.now(timezone.utc).date()\<close>), the outcome of each HTTP request, and the
  outcome of the calls into pandas and mplfinance. Such a library outcome is \<open>None\<close> when
  the calls return and \<open>Some msg\<close> when one of them raises an exception whose text is
  \<open>msg\<close>.
\<close>

subsection \<open>Python strings and integers\<close>

text \<open>\<^verbatim>\<open>sep.join(xs)\<close>\<close>

fun join :: "string \<Rightarrow> string list \<Rightarrow> string" where
  "join sep [] = []"
| "join sep [x] = x"
| "join sep (x # y # ys) = x @ sep @ join sep (y # ys)"

text \<open>\<^verbatim>\<open>s.startswith(p)\<close>\<close>

definition startswith :: "string \<Rightarrow> string \<Rightarrow> bool" where
  "startswith s p = (take (length p) s = p)"

text \<open>
  \<^verbatim>\<open>s.split(sep, maxsplit)\<close> for a separator of one character: at most \<open>maxsplit\<close>
  cuts, from the left.
\<close>

fun split_max :: "char \<Rightarrow> nat \<Rightarrow> string \<Rightarrow> string list" where
  "split_max sep 0 s = [s]"
| "split_max sep (Suc n) s =
     (if sep \<in> set s
      then takeWhile (\<lambda>c. c \<noteq> sep) s # split_max sep n (tl (dropWhile (\<lambda>c. c \<noteq> sep) s))
      else [s])"

text \<open>
  \<^verbatim>\<open>str(n)\<close> for an integer below the interpreter's limit on digits: decimal digits, a
  minus sign when negative.
\<close>

definition digit_char :: "nat \<Rightarrow> char" where
  "digit_char d = char_of (48 + d)"

fun str_nat :: "nat \<Rightarrow> string" where
  "str_nat n = (if n < 10 then [digit_char n] else str_nat (n div 10) @ [digit_char (n mod 10)])"

declare str_nat.simps [simp del]

definition str_int :: "int \<Rightarrow> string" where
  "str_int i = (if i < 0 then CHR ''-'' # str_nat (nat (- i)) else str_nat (nat i))"

text \<open>
  \<^verbatim>\<open>int(s)\<close> in base 10 on a string of ASCII characters shorter than the
  interpreter's limit on digits: the blanks of ASCII (tab to carriage return, and the
  space) around the number are stripped, one sign may lead, and single underscores may
  sit between digits. Anything else is Python's ValueError, here \<open>None\<close>.
\<close>

definition is_space :: "char \<Rightarrow> bool" where
  "is_space c = (let n = (of_char c :: nat) in (9 \<le> n \<and> n \<le> 13) \<or> n = 32)"

definition is_digit :: "char \<Rightarrow> bool" where
  "is_digit c = (let n = (of_char c :: nat) in 48 \<le> n \<and> n \<le> 57)"

definition digit_val :: "char \<Rightarrow> nat" where
  "digit_val c = of_char c - 48"

definition strip :: "string \<Rightarrow> string" where
  "strip s = rev (dropWhile is_space (rev (dropWhile is_space s)))"

fun parse_digits :: "bool \<Rightarrow> nat \<Rightarrow> string \<Rightarrow> nat option" where
  "parse_digits seen acc [] = (if seen then Some acc else None)"
| "parse_digits seen acc (c # cs) =
     (if is_digit c then parse_digits True (acc * 10 + digit_val c) cs
      else if c = CHR ''_'' \<and> seen \<and> cs \<noteq> [] \<and> is_digit (hd cs) then parse_digits False acc cs
      else None)"

definition py_int :: "string \<Rightarrow> int option" where
  "py_int s =
     (case strip s of
        [] \<Rightarrow> None
      | c # cs \<Rightarrow>
          if c = CHR ''-'' then map_option (\<lambda>n. - int n) (parse_digits False 0 cs)
          else if c = CHR ''+'' then map_option int (parse_digits False 0 cs)
          else map_option int (parse_digits False 0 (c # cs)))"

subsection \<open>Configuration\<close>

definition COINS :: "string list" where
  "COINS = [''bitcoin'', ''ethereum'', ''solana'', ''dogecoin'', ''cardano'', ''ripple'',
    ''polkadot'', ''litecoin'', ''tron'', ''polygon'', ''avalanche-2'', ''chainlink'',
    ''uniswap'', ''stellar'', ''internet-computer'', ''vechain'', ''cosmos'',
    ''filecoin'', ''aptos'', ''arbitrum'']"

definition API_URL :: string where
  "API_URL = ''https://api.coingecko.com/api/v3/coins/markets''"

text \<open>\<^verbatim>\<open>MARKET_CHART_URL.format(id=coin_id)\<close>\<close>

definition MARKET_CHART_URL :: "string \<Rightarrow> string" where
  "MARKET_CHART_URL coin_id = ''https://api.coingecko.com/api/v3/coins/'' @ coin_id @ ''/ohlc''"

definition REFRESH_OPTIONS :: "(string \<times> nat) list" where
  "REFRESH_OPTIONS = [(''30s'', 30000), (''1m'', 60000), (''5m'', 300000), (''10m'', 600000)]"

definition DEFAULT_REFRESH_LABEL :: string where
  "DEFAULT_REFRESH_LABEL = ''1m''"

text \<open>\<^verbatim>\<open>s.lower()\<close> on bytes: ASCII capitals only.\<close>

definition lower_char :: "char \<Rightarrow> char" where
  "lower_char c = (let n = (of_char c :: nat) in if 65 \<le> n \<and> n \<le> 90 then char_of (n + 32) else c)"

definition lower :: "string \<Rightarrow> string" where
  "lower s = map lower_char s"

text \<open>\<^verbatim>\<open>sub in s\<close> on strings\<close>

fun contains :: "string \<Rightarrow> string \<Rightarrow> bool" where
  "contains [] sub = (sub = [])"
| "contains (c # cs) sub = (startswith (c # cs) sub \<or> contains cs sub)"

subsection \<open>Data\<close>

text \<open>The value of \<^verbatim>\<open>datetime.now(timezone.utc).date()\<close>: year, month, day.\<close>

type_synonym date = "nat \<times> nat \<times> nat"

text \<open>
  One record of the markets payload. \<^verbatim>\<open>populate_table\<close> reads \<^verbatim>\<open>coin["name"]\<close> and
  \<^verbatim>\<open>coin["id"]\<close>, so both are there; \<^verbatim>\<open>symbol\<close> and \<^verbatim>\<open>image\<close> are read with
  \<^verbatim>\<open>get\<close> and may be missing.
\<close>

record coin =
  coin_id :: string
  coin_name :: string
  coin_symbol :: "string option"
  coin_image :: "string option"

text \<open>
  One row of the OHLC payload, \<^verbatim>\<open>[timestamp, open, high, low, close]\<close>, with the
  timestamp in milliseconds. The handlers never compute with the four prices, whose type
  is left open. When the pandas calls return, the data frame built from a payload is the
  list of its rows in payload order, the first component being the index: the
  constructor, \<^verbatim>\<open>to_datetime\<close> and \<^verbatim>\<open>set_index\<close> neither reorder nor drop rows.
  They raise on a payload they cannot convert, a timestamp out of the range of
  \<^verbatim>\<open>datetime64[ns]\<close> for one.
\<close>

type_synonym 'p ohlc = "int \<times> 'p \<times> 'p \<times> 'p \<times> 'p"

type_synonym 'p frame = "'p ohlc list"

datatype 'p payload = Markets "coin list" | Ohlc "'p ohlc list"

datatype pval = PStr string | PInt int

datatype thread =
    FetchThread string "(string \<times> pval) list" string
  | IconFetcher "coin list"

text \<open>A \<^verbatim>\<open>QPixmap\<close>; its truth value in Python is \<^verbatim>\<open>not isNull()\<close>.\<close>

record pixmap =
  pix_null :: bool
  pix_content :: string

text \<open>What \<^verbatim>\<open>requests.get\<close>, \<^verbatim>\<open>raise_for_status\<close> and \<^verbatim>\<open>json\<close> do for one request.\<close>

datatype 'p response = Returned "'p payload" | Raised string

datatype icon_response = IconReturned pixmap | IconRaised string

text \<open>The signals of the two thread classes.\<close>

datatype 'p signal =
    Finished "'p payload" string
  | Error string
  | IconLoaded string pixmap

text \<open>
  An exception that escapes a slot: the ValueError of \<^verbatim>\<open>int\<close>, or one raised inside
  mplfinance, with its text.
\<close>

datatype py_error = ValueError | LibraryError string

text \<open>The item of column 0 of a table row.\<close>

record item =
  item_text :: string
  user_role :: string
  user_role1 :: string

record 'p chart =
  chart_df :: "'p frame"
  chart_name :: "string option"
  chart_days :: "int option"

record 'p tracker =
  chart_cache :: "(string option \<times> int option \<times> date) \<rightharpoonup> 'p frame"
  icon_cache :: "string \<rightharpoonup> pixmap"
  card_icon_labels :: "string \<rightharpoonup> pixmap option"
  cards :: "(string \<times> string) list"
  threads :: "thread list"
  table :: "item option list"
  row_hidden :: "bool list"
  range_dropdown :: string
  timer_interval :: nat
  status_label :: string
  dialogs :: "(string \<times> string) list"
  canvas :: "'p chart option"

subsection \<open>The worker threads\<close>

text \<open>
  \<^verbatim>\<open>FetchThread.run\<close>, for a thread with the given tag: the signals it emits, given what
  the request does.
\<close>

definition FetchThread_run :: "string \<Rightarrow> 'p response \<Rightarrow> 'p signal list" where
  "FetchThread_run tag resp =
     (case resp of
        Returned data \<Rightarrow> [Finished data tag]
      | Raised e \<Rightarrow> [Error e])"

text \<open>
  \<^verbatim>\<open>IconFetcher.run\<close>: each coin comes with what its request does, should one be made.
\<close>

fun IconFetcher_run :: "(coin \<times> icon_response) list \<Rightarrow> 'p signal list" where
  "IconFetcher_run [] = []"
| "IconFetcher_run ((c, r) # rest) =
     (if coin_id c = [] \<or> coin_image c = None \<or> coin_image c = Some [] then IconFetcher_run rest
      else case r of
             IconReturned pix \<Rightarrow> IconLoaded (coin_id c) pix # IconFetcher_run rest
           | IconRaised e \<Rightarrow> IconFetcher_run rest)"

subsection \<open>CryptoTracker\<close>

text \<open>
  What a call of a handler does: it returns, or an exception escapes it. Either way the
  object is left in the state it has reached.
\<close>

datatype 'p outcome = Returns "'p tracker" | Raises py_error "'p tracker"

fun state_of :: "'p outcome \<Rightarrow> 'p tracker" where
  "state_of (Returns s) = s"
| "state_of (Raises e s) = s"

definition change_refresh_interval :: "string \<Rightarrow> 'p tracker \<Rightarrow> 'p tracker" where
  "change_refresh_interval label s =
     s\<lparr>timer_interval := (case map_of REFRESH_OPTIONS label of Some v \<Rightarrow> v | None \<Rightarrow> 60000)\<rparr>"

definition load_data :: "'p tracker \<Rightarrow> 'p tracker" where
  "load_data s =
     (let s1 = s\<lparr>status_label := ''Fetching market data...''\<rparr>;
          params = [(''vs_currency'', PStr ''usd''), (''ids'', PStr (join '','' COINS)),
                    (''price_change_percentage'', PStr ''24h,7d'')]
      in s1\<lparr>threads := threads s1 @ [FetchThread API_URL params ''markets'']\<rparr>)"

definition on_fetch_error :: "string \<Rightarrow> 'p tracker \<Rightarrow> 'p tracker" where
  "on_fetch_error msg s =
     s\<lparr>dialogs := dialogs s @ [(''Fetch error'', msg)], status_label := ''Fetch error''\<rparr>"

definition populate_table :: "coin list \<Rightarrow> 'p tracker \<Rightarrow> 'p tracker" where
  "populate_table data s =
     s\<lparr>table := map (\<lambda>c. Some \<lparr>item_text = coin_name c, user_role = coin_id c,
                                 user_role1 = lower (case coin_symbol c of None \<Rightarrow> [] | Some y \<Rightarrow> y)\<rparr>)
                     data\<rparr>"

definition populate_cards :: "coin list \<Rightarrow> 'p tracker \<Rightarrow> 'p tracker" where
  "populate_cards data s =
     s\<lparr>card_icon_labels := fold (\<lambda>c m. m(coin_id c \<mapsto> None)) data Map.empty,
       cards := map (\<lambda>c. (coin_id c, coin_name c)) data\<rparr>"

definition on_icon_loaded :: "string \<Rightarrow> pixmap \<Rightarrow> 'p tracker \<Rightarrow> 'p tracker" where
  "on_icon_loaded cid pix s =
     (if pix_null pix then s
      else let s1 = s\<lparr>icon_cache := (icon_cache s)(cid \<mapsto> pix)\<rparr>
           in case card_icon_labels s1 cid of
                None \<Rightarrow> s1
              | Some lbl \<Rightarrow> s1\<lparr>card_icon_labels := (card_icon_labels s1)(cid \<mapsto> Some pix)\<rparr>)"

text \<open>
  \<^verbatim>\<open>draw_candlestick\<close>, given what the calls into mplfinance do on this frame. The
  figure is cleared first, so a drawing that raises leaves no chart on it. The result is
  the text of the exception, if one was raised, and the state reached.
\<close>

definition draw_candlestick ::
  "'p frame \<Rightarrow> string option \<Rightarrow> int option \<Rightarrow> string option \<Rightarrow> 'p tracker \<Rightarrow>
   string option \<times> 'p tracker" where
  "draw_candlestick df name days draw_exc s =
     (case draw_exc of
        None \<Rightarrow> (None, s\<lparr>canvas := Some \<lparr>chart_df = df, chart_name = name, chart_days = days\<rparr>\<rparr>)
      | Some e \<Rightarrow> (Some e, s\<lparr>canvas := None\<rparr>))"

text \<open>
  \<^verbatim>\<open>start_chart_fetch\<close>. On a cache hit the drawing is called outside any \<^verbatim>\<open>try\<close>, so
  its exception escapes.
\<close>

definition start_chart_fetch ::
  "string \<Rightarrow> string \<Rightarrow> int \<Rightarrow> date \<Rightarrow> string option \<Rightarrow> 'p tracker \<Rightarrow> 'p outcome" where
  "start_chart_fetch cid cname days date_tag draw_exc s =
     (let key = (Some cid, Some days, date_tag)
      in case chart_cache s key of
           Some df \<Rightarrow>
             (case draw_candlestick df (Some cname) (Some days) draw_exc s of
                (None, s1) \<Rightarrow> Returns s1
              | (Some e, s1) \<Rightarrow> Raises (LibraryError e) s1)
         | None \<Rightarrow>
             (let url = MARKET_CHART_URL cid;
                  params = [(''vs_currency'', PStr ''usd''), (''days'', PInt days)];
                  tag = ''chart:'' @ cid @ '':'' @ str_int days;
                  s1 = s\<lparr>threads := threads s @ [FetchThread url params tag]\<rparr>
              in Returns (s1\<lparr>status_label := ''Fetching '' @ cname @ '' '' @ str_int days @ ''d chart...''\<rparr>)))"

text \<open>
  The first row whose item carries the given id (\<^verbatim>\<open>it and it.data(Qt.UserRole) == coin_id\<close>);
  an id of \<^verbatim>\<open>None\<close> matches no row.
\<close>

definition row_matches :: "string option \<Rightarrow> item option \<Rightarrow> bool" where
  "row_matches cid r = (case r of None \<Rightarrow> False | Some it \<Rightarrow> cid = Some (user_role it))"

definition fmt_opt :: "string option \<Rightarrow> string" where
  "fmt_opt x = (case x of None \<Rightarrow> ''None'' | Some y \<Rightarrow> y)"

text \<open>
  \<^verbatim>\<open>on_chart_fetched\<close>, given what the pandas calls do on this payload and what the
  drawing does on the frame. Everything runs inside one \<^verbatim>\<open>try\<close>: the empty payload,
  an exception of pandas (before the cache is written) and an exception of the drawing
  (after the cache is written, before the status label is set) all end in the
  "Chart error" message box.
\<close>

definition on_chart_fetched ::
  "'p ohlc list \<Rightarrow> string option \<Rightarrow> int option \<Rightarrow> date \<Rightarrow> string option \<Rightarrow> string option \<Rightarrow>
   'p tracker \<Rightarrow> 'p tracker" where
  "on_chart_fetched raw cid days today pandas_exc draw_exc s =
     (if raw = [] then s\<lparr>dialogs := dialogs s @ [(''Chart error'', ''No OHLC data returned'')]\<rparr>
      else case pandas_exc of
             Some e \<Rightarrow> s\<lparr>dialogs := dialogs s @ [(''Chart error'', e)]\<rparr>
           | None \<Rightarrow>
               (let df = raw;
                    key = (cid, days, today);
                    s1 = s\<lparr>chart_cache := (chart_cache s)(key \<mapsto> df)\<rparr>;
                    cname = (case find (row_matches cid) (table s1) of
                               Some (Some it) \<Rightarrow> Some (item_text it)
                             | _ \<Rightarrow> cid)
                in case draw_candlestick df cname days draw_exc s1 of
                     (None, s2) \<Rightarrow> s2\<lparr>status_label := ''Showing chart for '' @ fmt_opt cname\<rparr>
                   | (Some e, s2) \<Rightarrow> s2\<lparr>dialogs := dialogs s2 @ [(''Chart error'', e)]\<rparr>))"

text \<open>
  The \<^verbatim>\<open>try\<close> block of \<^verbatim>\<open>on_fetch_finished\<close> that takes a chart tag apart; any exception
  gives \<^verbatim>\<open>(None, None)\<close>.
\<close>

definition parse_chart_tag :: "string \<Rightarrow> string option \<times> int option" where
  "parse_chart_tag tag =
     (case split_max (CHR '':'') 2 tag of
        [u, cid, days_s] \<Rightarrow>
          (case py_int days_s of Some d \<Rightarrow> (Some cid, Some d) | None \<Rightarrow> (None, None))
      | _ \<Rightarrow> (None, None))"

text \<open>
  A payload read as the markets list or as the OHLC list. The empty list is both; a
  non-empty payload of the other endpoint's shape is outside the model (\<open>None\<close> below).
\<close>

fun as_coins :: "'p payload \<Rightarrow> coin list option" where
  "as_coins (Markets cs) = Some cs"
| "as_coins (Ohlc rows) = (if rows = [] then Some [] else None)"

fun as_ohlc :: "'p payload \<Rightarrow> 'p ohlc list option" where
  "as_ohlc (Ohlc rows) = Some rows"
| "as_ohlc (Markets cs) = (if cs = [] then Some [] else None)"

definition on_fetch_finished ::
  "'p payload \<Rightarrow> string \<Rightarrow> date \<Rightarrow> string option \<Rightarrow> string option \<Rightarrow> 'p tracker \<Rightarrow>
   'p tracker option" where
  "on_fetch_finished data tag today pandas_exc draw_exc s =
     (if tag = ''markets'' then
        (case as_coins data of
           None \<Rightarrow> None
         | Some cs \<Rightarrow>
             (let s1 = populate_table cs s;
                  s2 = populate_cards cs s1;
                  s3 = s2\<lparr>threads := threads s2 @ [IconFetcher cs]\<rparr>
              in Some (s3\<lparr>status_label := ''Market data updated ('' @ str_nat (length cs) @ '' coins)''\<rparr>)))
      else if startswith tag ''chart:'' then
        (case as_ohlc data of
           None \<Rightarrow> None
         | Some raw \<Rightarrow>
             (let (cid, days) = parse_chart_tag tag
              in Some (on_chart_fetched raw cid days today pandas_exc draw_exc s)))
      else Some s)"


text \<open>The click handler that \<^verbatim>\<open>populate_cards\<close> attaches to the card of a coin.\<close>

definition card_click :: "string \<times> string \<Rightarrow> date \<Rightarrow> string option \<Rightarrow> 'p tracker \<Rightarrow> 'p outcome" where
  "card_click h today draw_exc s =
     (case find (row_matches (Some (fst h))) (table s) of
        None \<Rightarrow> Returns s
      | Some r \<Rightarrow>
          (case py_int (range_dropdown s) of
             None \<Rightarrow> Raises ValueError s
           | Some days \<Rightarrow> start_chart_fetch (fst h) (snd h) days today draw_exc s))"

text \<open>
  \<^verbatim>\<open>filter_table\<close>: its only writes are the \<^verbatim>\<open>setRowHidden\<close> calls, one per row, kept in
  \<open>row_hidden\<close>.
\<close>

definition filter_table :: "string \<Rightarrow> 'p tracker \<Rightarrow> 'p tracker" where
  "filter_table search_text s =
     (let txt = lower search_text
      in s\<lparr>row_hidden :=
             map (\<lambda>r. case r of
                         None \<Rightarrow> True
                       | Some it \<Rightarrow> \<not> (contains (lower (item_text it)) txt \<or> contains (user_role1 it) txt))
                 (table s)\<rparr>)"

text \<open>The connections made when a thread is started: each signal runs its slot.\<close>

fun deliver ::
  "'p signal \<Rightarrow> date \<Rightarrow> string option \<Rightarrow> string option \<Rightarrow> 'p tracker \<Rightarrow> 'p tracker option" where
  "deliver (Finished data tag) today pandas_exc draw_exc s =
     on_fetch_finished data tag today pandas_exc draw_exc s"
| "deliver (Error msg) today pandas_exc draw_exc s = Some (on_fetch_error msg s)"
| "deliver (IconLoaded cid pix) today pandas_exc draw_exc s = Some (on_icon_loaded cid pix s)"

text \<open>The state at the end of \<^verbatim>\<open>__init__\<close>.\<close>

definition init :: "'p tracker" where
  "init =
     load_data (change_refresh_interval DEFAULT_REFRESH_LABEL
       \<lparr>chart_cache = Map.empty, icon_cache = Map.empty, card_icon_labels = Map.empty,
        cards = [], threads = [], table = [], row_hidden = [], range_dropdown = ''7'',
        timer_interval = 0, status_label = [], dialogs = [], canvas = None\<rparr>)"

section \<open>Properties\<close>

subsection \<open>Decimal strings and chart tags\<close>

lemma is_digit_digit_char: "d < 10 \<Longrightarrow> is_digit (digit_char d)"
  by (simp add: is_digit_def digit_char_def)

lemma digit_val_digit_char: "d < 10 \<Longrightarrow> digit_val (digit_char d) = d"
  by (simp add: digit_val_def digit_char_def)

lemma str_nat_digits: "list_all is_digit (str_nat n)"
proof (induction n rule: str_nat.induct)
  case (1 n)
  show ?case
  proof (cases "n < 10")
    case True
    then show ?thesis by (subst str_nat.simps) (simp add: is_digit_digit_char)
  next
    case False
    with 1 show ?thesis by (subst str_nat.simps) (simp add: is_digit_digit_char)
  qed
qed

lemma str_nat_not_Nil: "str_nat n \<noteq> []"
  by (subst str_nat.simps) simp

lemma parse_digits_all_digits:
  "list_all is_digit ds \<Longrightarrow> ds \<noteq> [] \<Longrightarrow>
   parse_digits seen acc ds = Some (foldl (\<lambda>a c. a * 10 + digit_val c) acc ds)"
proof (induction ds arbitrary: seen acc)
  case Nil
  then show ?case by simp
next
  case (Cons c cs)
  show ?case
  proof (cases cs)
    case Nil
    with Cons.prems show ?thesis by simp
  next
    case (Cons d ds)
    then have "parse_digits True (acc * 10 + digit_val c) cs =
        Some (foldl (\<lambda>a c. a * 10 + digit_val c) (acc * 10 + digit_val c) cs)"
      using Cons.prems by (intro Cons.IH) simp_all
    with Cons.prems show ?thesis by simp
  qed
qed

lemma foldl_str_nat: "foldl (\<lambda>a c. a * 10 + digit_val c) 0 (str_nat n) = n"
proof (induction n rule: str_nat.induct)
  case (1 n)
  show ?case
  proof (cases "n < 10")
    case True
    then show ?thesis by (subst str_nat.simps) (simp add: digit_val_digit_char)
  next
    case False
    with 1 show ?thesis by (subst str_nat.simps) (simp add: digit_val_digit_char)
  qed
qed

lemma parse_digits_str_nat: "parse_digits seen 0 (str_nat n) = Some n"
  by (simp add: parse_digits_all_digits str_nat_digits str_nat_not_Nil foldl_str_nat)

lemma digit_not_space: "is_digit c \<Longrightarrow> \<not> is_space c"
  by (auto simp: is_digit_def is_space_def Let_def)

lemma strip_id: "s \<noteq> [] \<Longrightarrow> \<not> is_space (hd s) \<Longrightarrow> \<not> is_space (last s) \<Longrightarrow> strip s = s"
proof -
  assume a: "s \<noteq> []" "\<not> is_space (hd s)" "\<not> is_space (last s)"
  then have "dropWhile is_space s = s" by (cases s) simp_all
  moreover from a have "dropWhile is_space (rev s) = rev s"
    by (cases "rev s") (simp_all add: hd_rev)
  ultimately show ?thesis by (simp add: strip_def)
qed

lemma str_nat_hd_last: "is_digit (hd (str_nat n)) \<and> is_digit (last (str_nat n))"
  using str_nat_digits [of n] str_nat_not_Nil [of n]
  by (simp add: list_all_iff)

lemma py_int_str_int: "py_int (str_int i) = Some i"
proof (cases "i < 0")
  case True
  let ?k = "nat (- i)"
  have "\<not> is_space (CHR ''-'')" by (simp add: is_space_def)
  moreover have "\<not> is_space (last (str_nat ?k))"
    using str_nat_hd_last digit_not_space by blast
  ultimately have "strip (CHR ''-'' # str_nat ?k) = CHR ''-'' # str_nat ?k"
    by (intro strip_id) (simp_all add: str_nat_not_Nil)
  with True show ?thesis
    by (simp add: py_int_def str_int_def parse_digits_str_nat)
next
  case False
  let ?k = "nat i"
  obtain c cs where cs: "str_nat ?k = c # cs"
    using str_nat_not_Nil [of ?k] by (cases "str_nat ?k") auto
  have d: "is_digit c" using str_nat_hd_last [of ?k] cs by simp
  have "strip (str_nat ?k) = str_nat ?k"
    using str_nat_hd_last [of ?k] digit_not_space by (intro strip_id) (auto simp: str_nat_not_Nil)
  moreover have "c \<noteq> CHR ''-''" "c \<noteq> CHR ''+''"
    using d by (auto simp: is_digit_def)
  moreover have "parse_digits False 0 (c # cs) = Some ?k"
    using parse_digits_str_nat [of False ?k] cs by simp
  ultimately show ?thesis using False cs
    by (simp add: py_int_def str_int_def)
qed

lemma split_chart_tag:
  "CHR '':'' \<notin> set cid \<Longrightarrow>
   split_max (CHR '':'') 2 (''chart:'' @ cid @ '':'' @ rest) = [''chart'', cid, rest]"
proof -
  assume a: "CHR '':'' \<notin> set cid"
  have t: "takeWhile (\<lambda>c. c \<noteq> CHR '':'') (cid @ CHR '':'' # rest) = cid"
    using a by (induction cid) auto
  have d: "dropWhile (\<lambda>c. c \<noteq> CHR '':'') (cid @ CHR '':'' # rest) = CHR '':'' # rest"
    using a by (induction cid) auto
  show ?thesis
    by (simp add: numeral_2_eq_2 t d)
qed

lemma parse_chart_tag_roundtrip:
  "CHR '':'' \<notin> set cid \<Longrightarrow>
   parse_chart_tag (''chart:'' @ cid @ '':'' @ str_int days) = (Some cid, Some days)"
proof -
  assume a: "CHR '':'' \<notin> set cid"
  show ?thesis
    unfolding parse_chart_tag_def split_chart_tag [OF a] by (simp add: py_int_str_int)
qed

lemma chart_tag_startswith: "startswith (''chart:'' @ x) ''chart:''"
  by (simp add: startswith_def)

subsection \<open>Steps of the handlers\<close>

lemma map_of_REFRESH_OPTIONS:
  "map_of REFRESH_OPTIONS label =
     (if label = ''30s'' then Some 30000 else if label = ''1m'' then Some 60000
      else if label = ''5m'' then Some 300000 else if label = ''10m'' then Some 600000 else None)"
  unfolding REFRESH_OPTIONS_def by (simp only: map_of.simps fun_upd_apply fst_conv snd_conv split: if_splits)

lemma timer_change_refresh_interval:
  "timer_interval (change_refresh_interval label s) =
     (case map_of REFRESH_OPTIONS label of Some v \<Rightarrow> v | None \<Rightarrow> 60000)"
  by (simp add: change_refresh_interval_def)

lemma chart_tag_not_markets: "''chart:'' @ x \<noteq> ''markets''"
  by simp

lemma str_int_7: "str_int 7 = ''7''"
  by code_simp

lemma parse_chart_tag_bitcoin_7: "parse_chart_tag ''chart:bitcoin:7'' = (Some ''bitcoin'', Some 7)"
  by code_simp

lemma init_threads:
  "threads (init :: 'p tracker) =
     [FetchThread API_URL
        [(''vs_currency'', PStr ''usd''), (''ids'', PStr (join '','' COINS)),
         (''price_change_percentage'', PStr ''24h,7d'')] ''markets'']"
  by (simp add: init_def load_data_def change_refresh_interval_def Let_def)

lemma load_data_threads:
  "threads (load_data s) =
     threads s @
       [FetchThread API_URL
          [(''vs_currency'', PStr ''usd''), (''ids'', PStr (join '','' COINS)),
           (''price_change_percentage'', PStr ''24h,7d'')] ''markets'']"
  by (simp add: load_data_def Let_def)

lemma chart_tag_bitcoin_7: "''chart:'' @ ''bitcoin'' @ '':'' @ str_int 7 = ''chart:bitcoin:7''"
  by (simp add: str_int_7)

lemma on_icon_loaded_cache: "chart_cache (on_icon_loaded cid pix s) = chart_cache s"
  by (simp add: on_icon_loaded_def Let_def split: option.splits)

lemma IconFetcher_run_append:
  "IconFetcher_run (xs @ ys) = IconFetcher_run xs @ IconFetcher_run ys"
  by (induction xs rule: IconFetcher_run.induct) (simp_all split: icon_response.splits)

lemma IconFetcher_run_only_icons:
  "sg \<in> set (IconFetcher_run jobs) \<Longrightarrow> \<exists>cid pix. sg = IconLoaded cid pix"
  by (induction jobs rule: IconFetcher_run.induct) (auto split: if_splits icon_response.splits)




lemma init_chart_cache: "chart_cache (init :: 'p tracker) = Map.empty"
  by (simp add: init_def load_data_def change_refresh_interval_def Let_def)


lemma on_chart_fetched_empty:
  "on_chart_fetched [] cid days today px dx s =
     s\<lparr>dialogs := dialogs s @ [(''Chart error'', ''No OHLC data returned'')]\<rparr>"
  by (simp add: on_chart_fetched_def)

lemma on_chart_fetched_rejected:
  "raw \<noteq> [] \<Longrightarrow>
   on_chart_fetched raw cid days today (Some e) dx s = s\<lparr>dialogs := dialogs s @ [(''Chart error'', e)]\<rparr>"
  by (simp add: on_chart_fetched_def)

lemma on_chart_fetched_cache:
  "chart_cache (on_chart_fetched raw cid days today px dx s) =
     (if raw \<noteq> [] \<and> px = None then (chart_cache s)((cid, days, today) \<mapsto> raw) else chart_cache s)"
  by (simp add: on_chart_fetched_def draw_candlestick_def Let_def split: option.splits)

lemma on_chart_fetched_threads:
  "threads (on_chart_fetched raw cid days today px dx s) = threads s"
  by (simp add: on_chart_fetched_def draw_candlestick_def Let_def split: option.splits)

lemma on_chart_fetched_drawn:
  "raw \<noteq> [] \<Longrightarrow>
   canvas (on_chart_fetched raw cid days today None None s) =
     Some \<lparr>chart_df = raw,
           chart_name = (case find (row_matches cid) (table s) of
                           Some (Some it) \<Rightarrow> Some (item_text it) | _ \<Rightarrow> cid),
           chart_days = days\<rparr>"
  by (simp add: on_chart_fetched_def draw_candlestick_def Let_def)

lemma on_fetch_finished_chart:
  assumes "CHR '':'' \<notin> set cid"
  shows "on_fetch_finished (Ohlc raw) (''chart:'' @ cid @ '':'' @ str_int days) today px dx s =
         Some (on_chart_fetched raw (Some cid) (Some days) today px dx s)"
  unfolding on_fetch_finished_def parse_chart_tag_roundtrip [OF assms]
  by (simp only: chart_tag_not_markets chart_tag_startswith if_False if_True as_ohlc.simps
      option.case Let_def prod.case)

lemma start_chart_fetch_miss:
  "chart_cache s (Some cid, Some days, today) = None \<Longrightarrow>
   start_chart_fetch cid cname days today dx s =
     Returns (s\<lparr>threads := threads s @
          [FetchThread (MARKET_CHART_URL cid) [(''vs_currency'', PStr ''usd''), (''days'', PInt days)]
             (''chart:'' @ cid @ '':'' @ str_int days)],
       status_label := ''Fetching '' @ cname @ '' '' @ str_int days @ ''d chart...''\<rparr>)"
  by (simp add: start_chart_fetch_def Let_def)

lemma start_chart_fetch_miss_threads:
  "chart_cache s (Some cid, Some days, today) = None \<Longrightarrow>
   threads (state_of (start_chart_fetch cid cname days today dx s)) =
     threads s @
       [FetchThread (MARKET_CHART_URL cid) [(''vs_currency'', PStr ''usd''), (''days'', PInt days)]
          (''chart:'' @ cid @ '':'' @ str_int days)]"
  by (simp add: start_chart_fetch_miss)



lemma start_chart_fetch_hit_threads:
  "chart_cache s (Some cid, Some days, today) = Some df \<Longrightarrow>
   threads (state_of (start_chart_fetch cid cname days today dx s)) = threads s"
  by (simp add: start_chart_fetch_def draw_candlestick_def split: option.splits)

lemma start_chart_fetch_cache:
  "chart_cache (state_of (start_chart_fetch cid cname days today dx s)) = chart_cache s"
  by (simp add: start_chart_fetch_def draw_candlestick_def Let_def split: option.splits)

lemma on_fetch_finished_markets_cache:
  "map_option chart_cache (on_fetch_finished (Markets cs) ''markets'' today px dx s) = Some (chart_cache s)"
  by (simp add: on_fetch_finished_def populate_table_def populate_cards_def Let_def)





subsection \<open>The claims\<close>

text \<open>
  C10. A refresh-interval label outside 30s, 1m, 5m, 10m sets the timer to 60000 ms, and
  each of the four labels sets it to its own value (30000, 60000, 300000, 600000 ms).
  The function returns a state for every label and changes the timer interval only.
\<close>

theorem change_refresh_interval_options:
  "(label \<notin> {''30s'', ''1m'', ''5m'', ''10m''} \<longrightarrow>
      timer_interval (change_refresh_interval label s) = 60000)
   \<and> timer_interval (change_refresh_interval ''30s'' s) = 30000
   \<and> timer_interval (change_refresh_interval ''1m'' s) = 60000
   \<and> timer_interval (change_refresh_interval ''5m'' s) = 300000
   \<and> timer_interval (change_refresh_interval ''10m'' s) = 600000
   \<and> (\<exists>ms. change_refresh_interval label s = s\<lparr>timer_interval := ms\<rparr>)"
proof -
  have "label \<notin> {''30s'', ''1m'', ''5m'', ''10m''} \<longrightarrow>
      timer_interval (change_refresh_interval label s) = 60000"
    unfolding timer_change_refresh_interval map_of_REFRESH_OPTIONS by simp
  moreover have "timer_interval (change_refresh_interval ''30s'' s) = 30000"
    unfolding timer_change_refresh_interval map_of_REFRESH_OPTIONS by simp
  moreover have "timer_interval (change_refresh_interval ''1m'' s) = 60000"
    unfolding timer_change_refresh_interval map_of_REFRESH_OPTIONS by simp
  moreover have "timer_interval (change_refresh_interval ''5m'' s) = 300000"
    unfolding timer_change_refresh_interval map_of_REFRESH_OPTIONS by simp
  moreover have "timer_interval (change_refresh_interval ''10m'' s) = 600000"
    unfolding timer_change_refresh_interval map_of_REFRESH_OPTIONS by simp
  moreover have "\<exists>ms. change_refresh_interval label s = s\<lparr>timer_interval := ms\<rparr>"
    unfolding change_refresh_interval_def by blast
  ultimately show ?thesis by blast
qed

theorem change_refresh_interval_options_witness:
  "''2h'' \<notin> {''30s'', ''1m'', ''5m'', ''10m''}
   \<and> timer_interval (change_refresh_interval ''2h'' (init :: nat tracker)) = 60000"
proof -
  have h: "''2h'' \<notin> {''30s'', ''1m'', ''5m'', ''10m''}" by simp
  with change_refresh_interval_options [of "''2h''" "init :: nat tracker"]
  show ?thesis by blast
qed

text \<open>
  C8. A failing snapshot fetch makes the thread emit the error signal alone; its slot
  appends one message box and leaves the table, the cards, both caches, the canvas, the
  threads and the timer as they were.
\<close>

theorem snapshot_failure_keeps_state:
  "FetchThread_run ''markets'' (Raised msg) = [Error msg :: 'p signal]
   \<and> deliver (Error msg :: 'p signal) today px dx s = Some (on_fetch_error msg s)
   \<and> dialogs (on_fetch_error msg s) = dialogs s @ [(''Fetch error'', msg)]
   \<and> table (on_fetch_error msg s) = table s
   \<and> row_hidden (on_fetch_error msg s) = row_hidden s
   \<and> cards (on_fetch_error msg s) = cards s
   \<and> card_icon_labels (on_fetch_error msg s) = card_icon_labels s
   \<and> chart_cache (on_fetch_error msg s) = chart_cache s
   \<and> icon_cache (on_fetch_error msg s) = icon_cache s
   \<and> canvas (on_fetch_error msg s) = canvas s
   \<and> threads (on_fetch_error msg s) = threads s
   \<and> timer_interval (on_fetch_error msg s) = timer_interval s"
  by (simp add: FetchThread_run_def on_fetch_error_def)

text \<open>
  C9. An icon request that raises emits nothing: the signals of the icon thread are
  those of the coins before the failing one followed by those of the coins after it.
  The thread emits \<^verbatim>\<open>icon_loaded\<close> signals only, and the slot of that signal shows no
  message box and leaves the status label, the table, the cards, the threads, the chart
  cache and the canvas as they are.
\<close>

theorem icon_failure_swallowed:
  "IconFetcher_run (pre @ (c, IconRaised e) # post) =
      (IconFetcher_run pre @ IconFetcher_run post :: 'p signal list)
   \<and> (\<forall>sg \<in> set (IconFetcher_run jobs :: 'p signal list). \<exists>cid pix. sg = IconLoaded cid pix)
   \<and> dialogs (on_icon_loaded cid pix s) = dialogs s
   \<and> status_label (on_icon_loaded cid pix s) = status_label s
   \<and> table (on_icon_loaded cid pix s) = table s
   \<and> cards (on_icon_loaded cid pix s) = cards s
   \<and> threads (on_icon_loaded cid pix s) = threads s
   \<and> chart_cache (on_icon_loaded cid pix s) = chart_cache s
   \<and> canvas (on_icon_loaded cid pix s) = canvas s"
proof -
  have "IconFetcher_run (pre @ (c, IconRaised e) # post) =
      (IconFetcher_run pre @ IconFetcher_run post :: 'p signal list)"
    by (simp add: IconFetcher_run_append)
  moreover have "\<forall>sg \<in> set (IconFetcher_run jobs :: 'p signal list). \<exists>cid pix. sg = IconLoaded cid pix"
    using IconFetcher_run_only_icons by blast
  moreover have "dialogs (on_icon_loaded cid pix s) = dialogs s"
    "status_label (on_icon_loaded cid pix s) = status_label s"
    "table (on_icon_loaded cid pix s) = table s"
    "cards (on_icon_loaded cid pix s) = cards s"
    "threads (on_icon_loaded cid pix s) = threads s"
    "chart_cache (on_icon_loaded cid pix s) = chart_cache s"
    "canvas (on_icon_loaded cid pix s) = canvas s"
    by (simp_all add: on_icon_loaded_def Let_def split: option.splits)
  ultimately show ?thesis by blast
qed

theorem icon_failure_swallowed_witness:
  "IconFetcher_run
     [(\<lparr>coin_id = ''bitcoin'', coin_name = ''Bitcoin'', coin_symbol = Some ''btc'', coin_image = Some ''u1''\<rparr>,
         IconReturned \<lparr>pix_null = False, pix_content = ''a''\<rparr>),
      (\<lparr>coin_id = ''ethereum'', coin_name = ''Ethereum'', coin_symbol = Some ''eth'', coin_image = Some ''u2''\<rparr>,
         IconRaised ''timeout''),
      (\<lparr>coin_id = ''solana'', coin_name = ''Solana'', coin_symbol = Some ''sol'', coin_image = Some ''u3''\<rparr>,
         IconReturned \<lparr>pix_null = False, pix_content = ''c''\<rparr>)] =
   [IconLoaded ''bitcoin'' \<lparr>pix_null = False, pix_content = ''a''\<rparr>,
    IconLoaded ''solana'' \<lparr>pix_null = False, pix_content = ''c''\<rparr> :: rat signal]
   \<and> (IconLoaded ''bitcoin'' \<lparr>pix_null = False, pix_content = ''a''\<rparr> :: rat signal) \<in>
       set (IconFetcher_run
         [(\<lparr>coin_id = ''bitcoin'', coin_name = ''Bitcoin'', coin_symbol = Some ''btc'', coin_image = Some ''u1''\<rparr>,
           IconReturned \<lparr>pix_null = False, pix_content = ''a''\<rparr>)])"
proof -
  let ?b = "(\<lparr>coin_id = ''bitcoin'', coin_name = ''Bitcoin'', coin_symbol = Some ''btc'', coin_image = Some ''u1''\<rparr>,
         IconReturned \<lparr>pix_null = False, pix_content = ''a''\<rparr>)"
  let ?e = "\<lparr>coin_id = ''ethereum'', coin_name = ''Ethereum'', coin_symbol = Some ''eth'', coin_image = Some ''u2''\<rparr>"
  let ?s = "(\<lparr>coin_id = ''solana'', coin_name = ''Solana'', coin_symbol = Some ''sol'', coin_image = Some ''u3''\<rparr>,
         IconReturned \<lparr>pix_null = False, pix_content = ''c''\<rparr>)"
  have "IconFetcher_run ([?b] @ (?e, IconRaised ''timeout'') # [?s]) =
      (IconFetcher_run [?b] @ IconFetcher_run [?s] :: rat signal list)"
    using icon_failure_swallowed [of "[?b]" ?e "''timeout''" "[?s]"] by blast
  then show ?thesis by simp
qed

text \<open>
  C1, as stated, fails: with a chart fetch for (bitcoin, 7) in flight, a second request
  for the same key starts a second thread with the same URL, parameters and tag; and
  \<^verbatim>\<open>load_data\<close> starts a second markets thread while the one started at
  construction is still in flight.
\<close>

theorem duplicate_fetch_counterexample:
  "threads (state_of (start_chart_fetch ''bitcoin'' ''Bitcoin'' 7 (2026, 1, 1) None (state_of (start_chart_fetch ''bitcoin'' ''Bitcoin'' 7 (2026, 1, 1) None (init :: rat tracker))))) =
     threads (init :: rat tracker) @
       [FetchThread (MARKET_CHART_URL ''bitcoin'') [(''vs_currency'', PStr ''usd''), (''days'', PInt 7)]
          ''chart:bitcoin:7'',
        FetchThread (MARKET_CHART_URL ''bitcoin'') [(''vs_currency'', PStr ''usd''), (''days'', PInt 7)]
          ''chart:bitcoin:7'']
   \<and> threads (load_data (init :: rat tracker)) =
     [FetchThread API_URL
        [(''vs_currency'', PStr ''usd''), (''ids'', PStr (join '','' COINS)),
         (''price_change_percentage'', PStr ''24h,7d'')] ''markets'',
      FetchThread API_URL
        [(''vs_currency'', PStr ''usd''), (''ids'', PStr (join '','' COINS)),
         (''price_change_percentage'', PStr ''24h,7d'')] ''markets'']"
proof -
  let ?k = "(Some ''bitcoin'', Some (7 :: int), (2026, 1, 1) :: date)"
  let ?s1 = "(state_of (start_chart_fetch ''bitcoin'' ''Bitcoin'' 7 (2026, 1, 1) None (init :: rat tracker)))"
  have m0: "chart_cache (init :: rat tracker) ?k = None"
    by (simp add: init_chart_cache)
  have m1: "chart_cache ?s1 ?k = None"
    unfolding start_chart_fetch_cache by (rule m0)
  have t1: "threads ?s1 = threads (init :: rat tracker) @
       [FetchThread (MARKET_CHART_URL ''bitcoin'') [(''vs_currency'', PStr ''usd''), (''days'', PInt 7)]
          ''chart:bitcoin:7'']"
    unfolding start_chart_fetch_miss_threads [OF m0] chart_tag_bitcoin_7 by (rule refl)
  have t2: "threads (state_of (start_chart_fetch ''bitcoin'' ''Bitcoin'' 7 (2026, 1, 1) None (state_of (start_chart_fetch ''bitcoin'' ''Bitcoin'' 7 (2026, 1, 1) None (init :: rat tracker))))) = threads ?s1 @
       [FetchThread (MARKET_CHART_URL ''bitcoin'') [(''vs_currency'', PStr ''usd''), (''days'', PInt 7)]
          ''chart:bitcoin:7'']"
    unfolding start_chart_fetch_miss_threads [OF m1] chart_tag_bitcoin_7 by (rule refl)
  show ?thesis
    unfolding t2 t1 load_data_threads init_threads by simp
qed

text \<open>
  C1, amended. Every chart request that misses the chart cache appends a fetch thread of
  its own, and every \<^verbatim>\<open>load_data\<close> appends a markets thread of its own, whatever
  threads are already in flight; each thread emits one signal, carrying the outcome of
  its own request.
\<close>

theorem every_miss_starts_a_fetch:
  "(chart_cache s (Some cid, Some days, today) = None \<longrightarrow>
      threads (state_of (start_chart_fetch cid cname days today dx s)) =
        threads s @
          [FetchThread (MARKET_CHART_URL cid) [(''vs_currency'', PStr ''usd''), (''days'', PInt days)]
             (''chart:'' @ cid @ '':'' @ str_int days)])
   \<and> threads (load_data s) =
        threads s @
          [FetchThread API_URL
             [(''vs_currency'', PStr ''usd''), (''ids'', PStr (join '','' COINS)),
              (''price_change_percentage'', PStr ''24h,7d'')] ''markets'']
   \<and> FetchThread_run tag (Returned data) = [Finished data tag]
   \<and> FetchThread_run tag (Raised e) = [Error e :: 'p signal]"
proof -
  have "FetchThread_run tag (Returned data) = [Finished data tag]"
    by (simp add: FetchThread_run_def)
  moreover have "FetchThread_run tag (Raised e) = [Error e :: 'p signal]"
    by (simp add: FetchThread_run_def)
  ultimately show ?thesis
    using load_data_threads [of s] start_chart_fetch_miss_threads [of s cid days today cname dx]
    by blast
qed

theorem every_miss_starts_a_fetch_witness:
  "chart_cache (init :: rat tracker) (Some ''bitcoin'', Some 7, (2026, 1, 1)) = None
   \<and> threads (state_of (start_chart_fetch ''bitcoin'' ''Bitcoin'' 7 (2026, 1, 1) None (init :: rat tracker))) =
        threads (init :: rat tracker) @
          [FetchThread (MARKET_CHART_URL ''bitcoin'') [(''vs_currency'', PStr ''usd''), (''days'', PInt 7)]
             (''chart:'' @ ''bitcoin'' @ '':'' @ str_int 7)]"
proof -
  have h: "chart_cache (init :: rat tracker) (Some ''bitcoin'', Some 7, (2026, 1, 1)) = None"
    by (simp add: init_chart_cache)
  from every_miss_starts_a_fetch [of "(init :: rat tracker)" "''bitcoin''" 7 "(2026, 1, 1)" "''Bitcoin''" None] h
  show ?thesis by blast
qed

text \<open>
  C2, as stated, fails: a job requested on 2026-01-01, whose lookup key carries that
  date, and completed on 2026-01-02 is stored under 2026-01-02; nothing is stored under
  the date of the request.
\<close>

theorem completion_date_key_counterexample:
  "threads (state_of (start_chart_fetch ''bitcoin'' ''Bitcoin'' 7 (2026, 1, 1) None (init :: rat tracker))) =
     threads (init :: rat tracker) @
       [FetchThread (MARKET_CHART_URL ''bitcoin'') [(''vs_currency'', PStr ''usd''), (''days'', PInt 7)]
          ''chart:bitcoin:7'']
   \<and> on_fetch_finished (Ohlc [(0, 3 / 2, 2, 1, 7 / 4), (3600000, 7 / 4, 9 / 4, 3 / 2, 2)]) ''chart:bitcoin:7'' (2026, 1, 2) None None
        (state_of (start_chart_fetch ''bitcoin'' ''Bitcoin'' 7 (2026, 1, 1) None (init :: rat tracker))) =
      Some (on_chart_fetched [(0, 3 / 2, 2, 1, 7 / 4), (3600000, 7 / 4, 9 / 4, 3 / 2, 2)] (Some ''bitcoin'') (Some 7) (2026, 1, 2) None None (state_of (start_chart_fetch ''bitcoin'' ''Bitcoin'' 7 (2026, 1, 1) None (init :: rat tracker))))
   \<and> chart_cache (on_chart_fetched [(0, 3 / 2, 2, 1, 7 / 4), (3600000, 7 / 4, 9 / 4, 3 / 2, 2)] (Some ''bitcoin'') (Some 7) (2026, 1, 2) None None (state_of (start_chart_fetch ''bitcoin'' ''Bitcoin'' 7 (2026, 1, 1) None (init :: rat tracker))))
        (Some ''bitcoin'', Some 7, (2026, 1, 1)) = None
   \<and> chart_cache (on_chart_fetched [(0, 3 / 2, 2, 1, 7 / 4), (3600000, 7 / 4, 9 / 4, 3 / 2, 2)] (Some ''bitcoin'') (Some 7) (2026, 1, 2) None None (state_of (start_chart_fetch ''bitcoin'' ''Bitcoin'' 7 (2026, 1, 1) None (init :: rat tracker))))
        (Some ''bitcoin'', Some 7, (2026, 1, 2)) = Some [(0, 3 / 2, 2, 1, 7 / 4), (3600000, 7 / 4, 9 / 4, 3 / 2, 2)]"
proof -
  let ?k = "(Some ''bitcoin'', Some (7 :: int), (2026, 1, 1) :: date)"
  let ?raw = "[(0, 3 / 2, 2, 1, 7 / 4), (3600000, 7 / 4, 9 / 4, 3 / 2, 2)] :: rat ohlc list"
  let ?s1 = "(state_of (start_chart_fetch ''bitcoin'' ''Bitcoin'' 7 (2026, 1, 1) None (init :: rat tracker)))"
  have m0: "chart_cache (init :: rat tracker) ?k = None"
    by (simp add: init_chart_cache)
  have t1: "threads ?s1 = threads (init :: rat tracker) @
       [FetchThread (MARKET_CHART_URL ''bitcoin'') [(''vs_currency'', PStr ''usd''), (''days'', PInt 7)]
          ''chart:bitcoin:7'']"
    unfolding start_chart_fetch_miss_threads [OF m0] chart_tag_bitcoin_7 by (rule refl)
  have col: "CHR '':'' \<notin> set ''bitcoin''" by simp
  have f: "on_fetch_finished (Ohlc ?raw) ''chart:bitcoin:7'' (2026, 1, 2) None None ?s1 =
      Some (on_chart_fetched ?raw (Some ''bitcoin'') (Some 7) (2026, 1, 2) None None ?s1)"
    using on_fetch_finished_chart [OF col, of ?raw 7 "(2026, 1, 2)" None None ?s1]
    unfolding chart_tag_bitcoin_7 .
  have k1: "chart_cache (on_chart_fetched ?raw (Some ''bitcoin'') (Some 7) (2026, 1, 2) None None ?s1)
        (Some ''bitcoin'', Some 7, (2026, 1, 1)) = None"
    by (simp add: on_chart_fetched_cache start_chart_fetch_cache init_chart_cache)
  have k2: "chart_cache (on_chart_fetched ?raw (Some ''bitcoin'') (Some 7) (2026, 1, 2) None None ?s1)
        (Some ''bitcoin'', Some 7, (2026, 1, 2)) = Some ?raw"
    by (simp add: on_chart_fetched_cache)
  from t1 f k1 k2 show ?thesis by blast
qed

text \<open>
  C2, amended. The chart cache is written only by the completion handler of a chart
  job. For a job whose asset id holds no colon and whose payload is not empty, the
  handler either leaves the cache as it is (pandas raised on the payload) or writes the
  payload under one key: the asset id and the range of the job, as carried by its tag,
  and the UTC date at which the handler runs. An empty payload, starting a chart fetch,
  refreshing the markets, a fetch error, an icon, a new refresh interval, a table filter
  and a completed markets job leave the chart cache as it is.
\<close>

theorem cache_write_key_of_completed_job:
  assumes "raw \<noteq> []" and "CHR '':'' \<notin> set cid"
  shows "on_fetch_finished (Ohlc raw) (''chart:'' @ cid @ '':'' @ str_int days) Dc px dx s =
        Some (on_chart_fetched raw (Some cid) (Some days) Dc px dx s)
    \<and> chart_cache (on_chart_fetched raw (Some cid) (Some days) Dc px dx s) =
        (case px of
           None \<Rightarrow> (chart_cache s)((Some cid, Some days, Dc) \<mapsto> raw)
         | Some e \<Rightarrow> chart_cache s)
    \<and> chart_cache (on_chart_fetched [] ocid odays Dc px dx s) = chart_cache s
    \<and> chart_cache (state_of (start_chart_fetch cid cname days Dr dx s)) = chart_cache s
    \<and> chart_cache (load_data s) = chart_cache s
    \<and> chart_cache (on_fetch_error msg s) = chart_cache s
    \<and> chart_cache (on_icon_loaded icid pix s) = chart_cache s
    \<and> chart_cache (change_refresh_interval label s) = chart_cache s
    \<and> chart_cache (filter_table txt s) = chart_cache s
    \<and> map_option chart_cache (on_fetch_finished (Markets cs) ''markets'' Dc px dx s) = Some (chart_cache s)"
proof -
  have "chart_cache (load_data s) = chart_cache s"
    by (simp add: load_data_def Let_def)
  moreover have "chart_cache (on_fetch_error msg s) = chart_cache s"
    by (simp add: on_fetch_error_def)
  moreover have "chart_cache (change_refresh_interval label s) = chart_cache s"
    by (simp add: change_refresh_interval_def)
  moreover have "chart_cache (filter_table txt s) = chart_cache s"
    by (simp add: filter_table_def Let_def)
  moreover have "chart_cache (on_chart_fetched raw (Some cid) (Some days) Dc px dx s) =
        (case px of
           None \<Rightarrow> (chart_cache s)((Some cid, Some days, Dc) \<mapsto> raw)
         | Some e \<Rightarrow> chart_cache s)"
    using assms(1) by (simp add: on_chart_fetched_cache split: option.splits)
  moreover have "chart_cache (on_chart_fetched [] ocid odays Dc px dx s) = chart_cache s"
    by (simp add: on_chart_fetched_cache)
  moreover note on_fetch_finished_chart [OF assms(2), of raw days Dc px dx s]
    start_chart_fetch_cache [of cid cname days Dr dx s]
    on_icon_loaded_cache [of icid pix s]
    on_fetch_finished_markets_cache [of cs Dc px dx s]
  ultimately show ?thesis by blast
qed

theorem cache_write_key_of_completed_job_witness:
  "[(0, 3 / 2, 2, 1, 7 / 4), (3600000, 7 / 4, 9 / 4, 3 / 2, 2)] \<noteq> ([] :: rat ohlc list) \<and> CHR '':'' \<notin> set ''bitcoin''
   \<and> chart_cache (on_chart_fetched [(0, 3 / 2, 2, 1, 7 / 4), (3600000, 7 / 4, 9 / 4, 3 / 2, 2)] (Some ''bitcoin'') (Some 7) (2026, 1, 2) None None (init :: rat tracker)) =
        (chart_cache (init :: rat tracker))((Some ''bitcoin'', Some 7, (2026, 1, 2)) \<mapsto> [(0, 3 / 2, 2, 1, 7 / 4), (3600000, 7 / 4, 9 / 4, 3 / 2, 2)])"
proof -
  have h1: "[(0, 3 / 2, 2, 1, 7 / 4), (3600000, 7 / 4, 9 / 4, 3 / 2, 2)] \<noteq> ([] :: rat ohlc list)" by simp
  have h2: "CHR '':'' \<notin> set ''bitcoin''" by simp
  from cache_write_key_of_completed_job [OF h1 h2, of 7 "(2026, 1, 2)" None None init] h1 h2
  show ?thesis by simp
qed



text \<open>
  C4. A series stored under the UTC date D1 does not serve a request made on another
  date D2: the lookup key carries D2, so as long as nothing is stored under D2 the
  request starts a fetch thread and draws nothing. Nothing is evicted: the entry under
  D1 stays in the cache, and a completion handler running on D1 changes no entry under
  D2.
\<close>

theorem chart_cache_day_rollover:
  assumes "D2 \<noteq> D1"
    and "chart_cache s (Some cid, Some days, D1) = Some df"
    and "chart_cache s (Some cid, Some days, D2) = None"
  shows "start_chart_fetch cid cname days D2 dx s =
        Returns (s\<lparr>threads := threads s @
            [FetchThread (MARKET_CHART_URL cid) [(''vs_currency'', PStr ''usd''), (''days'', PInt days)]
               (''chart:'' @ cid @ '':'' @ str_int days)],
          status_label := ''Fetching '' @ cname @ '' '' @ str_int days @ ''d chart...''\<rparr>)
    \<and> threads (state_of (start_chart_fetch cid cname days D2 dx s)) =
        threads s @
          [FetchThread (MARKET_CHART_URL cid) [(''vs_currency'', PStr ''usd''), (''days'', PInt days)]
             (''chart:'' @ cid @ '':'' @ str_int days)]
    \<and> canvas (state_of (start_chart_fetch cid cname days D2 dx s)) = canvas s
    \<and> chart_cache (state_of (start_chart_fetch cid cname days D2 dx s)) (Some cid, Some days, D1) = Some df
    \<and> chart_cache (on_chart_fetched raw (Some cid) (Some days) D1 px dx0 s0) (Some cid, Some days, D2) =
        chart_cache s0 (Some cid, Some days, D2)"
proof -
  have w: "chart_cache (on_chart_fetched raw (Some cid) (Some days) D1 px dx0 s0) (Some cid, Some days, D2) =
        chart_cache s0 (Some cid, Some days, D2)"
    using assms(1) by (simp add: on_chart_fetched_cache)
  show ?thesis
    unfolding start_chart_fetch_miss [OF assms(3)] using assms(2) w by simp
qed

theorem chart_cache_day_rollover_witness:
  "(2026, 1, 2) \<noteq> ((2026, 1, 1) :: date)
   \<and> chart_cache (on_chart_fetched [(0, 3 / 2, 2, 1, 7 / 4), (3600000, 7 / 4, 9 / 4, 3 / 2, 2)] (Some ''bitcoin'') (Some 7) (2026, 1, 1) None None (init :: rat tracker)) (Some ''bitcoin'', Some 7, (2026, 1, 1)) = Some [(0, 3 / 2, 2, 1, 7 / 4), (3600000, 7 / 4, 9 / 4, 3 / 2, 2)]
   \<and> chart_cache (on_chart_fetched [(0, 3 / 2, 2, 1, 7 / 4), (3600000, 7 / 4, 9 / 4, 3 / 2, 2)] (Some ''bitcoin'') (Some 7) (2026, 1, 1) None None (init :: rat tracker)) (Some ''bitcoin'', Some 7, (2026, 1, 2)) = None
   \<and> threads (state_of (start_chart_fetch ''bitcoin'' ''Bitcoin'' 7 (2026, 1, 2) None (on_chart_fetched [(0, 3 / 2, 2, 1, 7 / 4), (3600000, 7 / 4, 9 / 4, 3 / 2, 2)] (Some ''bitcoin'') (Some 7) (2026, 1, 1) None None (init :: rat tracker)))) =
      threads (on_chart_fetched [(0, 3 / 2, 2, 1, 7 / 4), (3600000, 7 / 4, 9 / 4, 3 / 2, 2)] (Some ''bitcoin'') (Some 7) (2026, 1, 1) None None (init :: rat tracker)) @
        [FetchThread (MARKET_CHART_URL ''bitcoin'') [(''vs_currency'', PStr ''usd''), (''days'', PInt 7)]
           (''chart:'' @ ''bitcoin'' @ '':'' @ str_int 7)]"
proof -
  let ?raw = "[(0, 3 / 2, 2, 1, 7 / 4), (3600000, 7 / 4, 9 / 4, 3 / 2, 2)] :: rat ohlc list"
  let ?s = "on_chart_fetched ?raw (Some ''bitcoin'') (Some 7) (2026, 1, 1) None None (init :: rat tracker)"
  have h1: "(2026, 1, 2) \<noteq> ((2026, 1, 1) :: date)" by simp
  have h2: "chart_cache ?s (Some ''bitcoin'', Some 7, (2026, 1, 1)) = Some ?raw"
    by (simp add: on_chart_fetched_cache)
  have h3: "chart_cache ?s (Some ''bitcoin'', Some 7, (2026, 1, 2)) = None"
    by (simp add: on_chart_fetched_cache init_chart_cache)
  from chart_cache_day_rollover [OF h1 h2 h3, of "''Bitcoin''" None] h1 h2 h3
  show ?thesis by blast
qed

text \<open>
  C5, as stated, fails: a payload whose timestamps descend and repeat is stored as it
  is, whether the drawing returns or raises, and drawn as it is when the drawing
  returns.
\<close>

theorem unsorted_payload_counterexample:
  "chart_cache (on_chart_fetched [(7200000, 2, 5 / 2, 3 / 2, 2), (3600000, 7 / 4, 9 / 4, 3 / 2, 2), (3600000, 7 / 4, 9 / 4, 3 / 2, 2)] (Some ''bitcoin'') (Some 7) (2026, 1, 1) None None (init :: rat tracker))
     (Some ''bitcoin'', Some 7, (2026, 1, 1)) = Some [(7200000, 2, 5 / 2, 3 / 2, 2), (3600000, 7 / 4, 9 / 4, 3 / 2, 2), (3600000, 7 / 4, 9 / 4, 3 / 2, 2)]
   \<and> chart_cache (on_chart_fetched [(7200000, 2, 5 / 2, 3 / 2, 2), (3600000, 7 / 4, 9 / 4, 3 / 2, 2), (3600000, 7 / 4, 9 / 4, 3 / 2, 2)] (Some ''bitcoin'') (Some 7) (2026, 1, 1) None (Some ''cannot plot'') (init :: rat tracker))
     (Some ''bitcoin'', Some 7, (2026, 1, 1)) = Some [(7200000, 2, 5 / 2, 3 / 2, 2), (3600000, 7 / 4, 9 / 4, 3 / 2, 2), (3600000, 7 / 4, 9 / 4, 3 / 2, 2)]
   \<and> canvas (on_chart_fetched [(7200000, 2, 5 / 2, 3 / 2, 2), (3600000, 7 / 4, 9 / 4, 3 / 2, 2), (3600000, 7 / 4, 9 / 4, 3 / 2, 2)] (Some ''bitcoin'') (Some 7) (2026, 1, 1) None None (init :: rat tracker)) =
     Some \<lparr>chart_df = [(7200000, 2, 5 / 2, 3 / 2, 2), (3600000, 7 / 4, 9 / 4, 3 / 2, 2), (3600000, 7 / 4, 9 / 4, 3 / 2, 2)],
       chart_name = Some ''bitcoin'', chart_days = Some 7\<rparr>
   \<and> \<not> sorted (map fst ([(7200000, 2, 5 / 2, 3 / 2, 2), (3600000, 7 / 4, 9 / 4, 3 / 2, 2), (3600000, 7 / 4, 9 / 4, 3 / 2, 2)] :: rat ohlc list))
   \<and> \<not> distinct (map fst ([(7200000, 2, 5 / 2, 3 / 2, 2), (3600000, 7 / 4, 9 / 4, 3 / 2, 2), (3600000, 7 / 4, 9 / 4, 3 / 2, 2)] :: rat ohlc list))"
proof -
  have t: "table (init :: rat tracker) = []"
    by (simp add: init_def load_data_def change_refresh_interval_def Let_def)
  show ?thesis
    by (simp add: on_chart_fetched_cache on_chart_fetched_drawn t)
qed

text \<open>
  C5, amended. For a non-empty payload that pandas converts, the series stored in the
  chart cache, and drawn on the canvas when the drawing returns, is the payload itself,
  rows in payload order; so it is ascending and free of duplicate timestamps exactly
  when the payload is. A non-empty payload on which pandas raises is reported in a
  message box and is neither stored nor drawn.
\<close>

theorem series_is_payload_in_order:
  assumes "raw \<noteq> []"
  shows "chart_cache (on_chart_fetched raw cid days today None dx s) (cid, days, today) = Some raw
    \<and> map_option chart_df (canvas (on_chart_fetched raw cid days today None None s)) = Some raw
    \<and> on_chart_fetched raw cid days today (Some e) dx s = s\<lparr>dialogs := dialogs s @ [(''Chart error'', e)]\<rparr>
    \<and> (\<exists>df. chart_cache (on_chart_fetched raw cid days today None dx s) (cid, days, today) = Some df
          \<and> (sorted (map fst df) \<and> distinct (map fst df) \<longleftrightarrow> sorted (map fst raw) \<and> distinct (map fst raw)))"
  using assms by (simp add: on_chart_fetched_cache on_chart_fetched_drawn on_chart_fetched_rejected)

theorem series_is_payload_in_order_witness:
  "[(7200000, 2, 5 / 2, 3 / 2, 2), (3600000, 7 / 4, 9 / 4, 3 / 2, 2), (3600000, 7 / 4, 9 / 4, 3 / 2, 2)] \<noteq> ([] :: rat ohlc list)
   \<and> chart_cache (on_chart_fetched [(7200000, 2, 5 / 2, 3 / 2, 2), (3600000, 7 / 4, 9 / 4, 3 / 2, 2), (3600000, 7 / 4, 9 / 4, 3 / 2, 2)] (Some ''bitcoin'') (Some 7) (2026, 1, 1) None None (init :: rat tracker))
     (Some ''bitcoin'', Some 7, (2026, 1, 1)) = Some [(7200000, 2, 5 / 2, 3 / 2, 2), (3600000, 7 / 4, 9 / 4, 3 / 2, 2), (3600000, 7 / 4, 9 / 4, 3 / 2, 2)]"
proof -
  have h: "[(7200000, 2, 5 / 2, 3 / 2, 2), (3600000, 7 / 4, 9 / 4, 3 / 2, 2), (3600000, 7 / 4, 9 / 4, 3 / 2, 2)] \<noteq> ([] :: rat ohlc list)" by simp
  from series_is_payload_in_order [OF h, of "Some ''bitcoin''" "Some 7" "(2026, 1, 1)" None init] h
  show ?thesis by blast
qed

text \<open>
  C6, as stated, fails: with two jobs for (bitcoin, 7) in flight, the first completes
  with data and the second with an empty payload. The empty completion is reported and
  writes nothing, yet the next request for the same key finds the series of the first
  job in the cache and starts no thread.
\<close>

theorem empty_payload_then_cache_hit_counterexample:
  "threads (state_of (start_chart_fetch ''bitcoin'' ''Bitcoin'' 7 (2026, 1, 1) None (state_of (start_chart_fetch ''bitcoin'' ''Bitcoin'' 7 (2026, 1, 1) None (init :: rat tracker))))) =
     threads (init :: rat tracker) @
       [FetchThread (MARKET_CHART_URL ''bitcoin'') [(''vs_currency'', PStr ''usd''), (''days'', PInt 7)]
          ''chart:bitcoin:7'',
        FetchThread (MARKET_CHART_URL ''bitcoin'') [(''vs_currency'', PStr ''usd''), (''days'', PInt 7)]
          ''chart:bitcoin:7'']
   \<and> on_fetch_finished (Ohlc [(0, 3 / 2, 2, 1, 7 / 4), (3600000, 7 / 4, 9 / 4, 3 / 2, 2)]) ''chart:bitcoin:7'' (2026, 1, 1) None None
        (state_of (start_chart_fetch ''bitcoin'' ''Bitcoin'' 7 (2026, 1, 1) None (state_of (start_chart_fetch ''bitcoin'' ''Bitcoin'' 7 (2026, 1, 1) None (init :: rat tracker))))) =
      Some (on_chart_fetched [(0, 3 / 2, 2, 1, 7 / 4), (3600000, 7 / 4, 9 / 4, 3 / 2, 2)] (Some ''bitcoin'') (Some 7) (2026, 1, 1) None None (state_of (start_chart_fetch ''bitcoin'' ''Bitcoin'' 7 (2026, 1, 1) None (state_of (start_chart_fetch ''bitcoin'' ''Bitcoin'' 7 (2026, 1, 1) None (init :: rat tracker))))))
   \<and> on_fetch_finished (Ohlc []) ''chart:bitcoin:7'' (2026, 1, 1) None None
        (on_chart_fetched [(0, 3 / 2, 2, 1, 7 / 4), (3600000, 7 / 4, 9 / 4, 3 / 2, 2)] (Some ''bitcoin'') (Some 7) (2026, 1, 1) None None (state_of (start_chart_fetch ''bitcoin'' ''Bitcoin'' 7 (2026, 1, 1) None (state_of (start_chart_fetch ''bitcoin'' ''Bitcoin'' 7 (2026, 1, 1) None (init :: rat tracker)))))) =
      Some (on_chart_fetched [] (Some ''bitcoin'') (Some 7) (2026, 1, 1) None None (on_chart_fetched [(0, 3 / 2, 2, 1, 7 / 4), (3600000, 7 / 4, 9 / 4, 3 / 2, 2)] (Some ''bitcoin'') (Some 7) (2026, 1, 1) None None (state_of (start_chart_fetch ''bitcoin'' ''Bitcoin'' 7 (2026, 1, 1) None (state_of (start_chart_fetch ''bitcoin'' ''Bitcoin'' 7 (2026, 1, 1) None (init :: rat tracker)))))))
   \<and> dialogs (on_chart_fetched [] (Some ''bitcoin'') (Some 7) (2026, 1, 1) None None (on_chart_fetched [(0, 3 / 2, 2, 1, 7 / 4), (3600000, 7 / 4, 9 / 4, 3 / 2, 2)] (Some ''bitcoin'') (Some 7) (2026, 1, 1) None None (state_of (start_chart_fetch ''bitcoin'' ''Bitcoin'' 7 (2026, 1, 1) None (state_of (start_chart_fetch ''bitcoin'' ''Bitcoin'' 7 (2026, 1, 1) None (init :: rat tracker))))))) =
      dialogs (on_chart_fetched [(0, 3 / 2, 2, 1, 7 / 4), (3600000, 7 / 4, 9 / 4, 3 / 2, 2)] (Some ''bitcoin'') (Some 7) (2026, 1, 1) None None (state_of (start_chart_fetch ''bitcoin'' ''Bitcoin'' 7 (2026, 1, 1) None (state_of (start_chart_fetch ''bitcoin'' ''Bitcoin'' 7 (2026, 1, 1) None (init :: rat tracker)))))) @
        [(''Chart error'', ''No OHLC data returned'')]
   \<and> chart_cache (on_chart_fetched [] (Some ''bitcoin'') (Some 7) (2026, 1, 1) None None (on_chart_fetched [(0, 3 / 2, 2, 1, 7 / 4), (3600000, 7 / 4, 9 / 4, 3 / 2, 2)] (Some ''bitcoin'') (Some 7) (2026, 1, 1) None None (state_of (start_chart_fetch ''bitcoin'' ''Bitcoin'' 7 (2026, 1, 1) None (state_of (start_chart_fetch ''bitcoin'' ''Bitcoin'' 7 (2026, 1, 1) None (init :: rat tracker)))))))
        (Some ''bitcoin'', Some 7, (2026, 1, 1)) = Some [(0, 3 / 2, 2, 1, 7 / 4), (3600000, 7 / 4, 9 / 4, 3 / 2, 2)]
   \<and> threads (state_of (start_chart_fetch ''bitcoin'' ''Bitcoin'' 7 (2026, 1, 1) None
        (on_chart_fetched [] (Some ''bitcoin'') (Some 7) (2026, 1, 1) None None (on_chart_fetched [(0, 3 / 2, 2, 1, 7 / 4), (3600000, 7 / 4, 9 / 4, 3 / 2, 2)] (Some ''bitcoin'') (Some 7) (2026, 1, 1) None None (state_of (start_chart_fetch ''bitcoin'' ''Bitcoin'' 7 (2026, 1, 1) None (state_of (start_chart_fetch ''bitcoin'' ''Bitcoin'' 7 (2026, 1, 1) None (init :: rat tracker))))))))) =
      threads (state_of (start_chart_fetch ''bitcoin'' ''Bitcoin'' 7 (2026, 1, 1) None (state_of (start_chart_fetch ''bitcoin'' ''Bitcoin'' 7 (2026, 1, 1) None (init :: rat tracker)))))"
proof -
  let ?k = "(Some ''bitcoin'', Some (7 :: int), (2026, 1, 1) :: date)"
  let ?raw = "[(0, 3 / 2, 2, 1, 7 / 4), (3600000, 7 / 4, 9 / 4, 3 / 2, 2)] :: rat ohlc list"
  let ?s1 = "(state_of (start_chart_fetch ''bitcoin'' ''Bitcoin'' 7 (2026, 1, 1) None (init :: rat tracker)))"
  let ?s2 = "state_of (start_chart_fetch ''bitcoin'' ''Bitcoin'' 7 (2026, 1, 1) None ?s1)"
  let ?s3 = "on_chart_fetched ?raw (Some ''bitcoin'') (Some 7) (2026, 1, 1) None None ?s2"
  let ?s4 = "on_chart_fetched [] (Some ''bitcoin'') (Some 7) (2026, 1, 1) None None ?s3"
  have m0: "chart_cache (init :: rat tracker) ?k = None"
    by (simp add: init_chart_cache)
  have m1: "chart_cache ?s1 ?k = None"
    unfolding start_chart_fetch_cache by (rule m0)
  have t1: "threads ?s1 = threads (init :: rat tracker) @
       [FetchThread (MARKET_CHART_URL ''bitcoin'') [(''vs_currency'', PStr ''usd''), (''days'', PInt 7)]
          ''chart:bitcoin:7'']"
    unfolding start_chart_fetch_miss_threads [OF m0] chart_tag_bitcoin_7 by (rule refl)
  have t2: "threads ?s2 = threads ?s1 @
       [FetchThread (MARKET_CHART_URL ''bitcoin'') [(''vs_currency'', PStr ''usd''), (''days'', PInt 7)]
          ''chart:bitcoin:7'']"
    unfolding start_chart_fetch_miss_threads [OF m1] chart_tag_bitcoin_7 by (rule refl)
  have a: "threads ?s2 = threads (init :: rat tracker) @
       [FetchThread (MARKET_CHART_URL ''bitcoin'') [(''vs_currency'', PStr ''usd''), (''days'', PInt 7)]
          ''chart:bitcoin:7'',
        FetchThread (MARKET_CHART_URL ''bitcoin'') [(''vs_currency'', PStr ''usd''), (''days'', PInt 7)]
          ''chart:bitcoin:7'']"
    unfolding t2 t1 by simp
  have col: "CHR '':'' \<notin> set ''bitcoin''" by simp
  have b: "on_fetch_finished (Ohlc ?raw) ''chart:bitcoin:7'' (2026, 1, 1) None None ?s2 = Some ?s3"
    using on_fetch_finished_chart [OF col, of ?raw 7 "(2026, 1, 1)" None None ?s2]
    unfolding chart_tag_bitcoin_7 .
  have c: "on_fetch_finished (Ohlc []) ''chart:bitcoin:7'' (2026, 1, 1) None None ?s3 = Some ?s4"
    using on_fetch_finished_chart [OF col, of "[]" 7 "(2026, 1, 1)" None None ?s3]
    unfolding chart_tag_bitcoin_7 .
  have d: "dialogs ?s4 = dialogs ?s3 @ [(''Chart error'', ''No OHLC data returned'')]"
    unfolding on_chart_fetched_empty by simp
  have e: "chart_cache ?s4 ?k = Some ?raw"
    by (simp add: on_chart_fetched_cache)
  have f: "threads (state_of (start_chart_fetch ''bitcoin'' ''Bitcoin'' 7 (2026, 1, 1) None ?s4)) = threads ?s2"
    unfolding start_chart_fetch_hit_threads [OF e] on_chart_fetched_threads by (rule refl)
  from a b c d e f show ?thesis by blast
qed

text \<open>
  C6, amended. A chart job that completes with an empty payload shows one
  "Chart error" message box and changes nothing else, the chart cache included. A later
  request starts a fetch thread when the cache held no series under its key before the
  completion, and starts none when it held one.
\<close>

theorem empty_payload_reported_not_cached:
  "on_fetch_finished (Ohlc []) (''chart:'' @ x) today px dx s =
      Some (on_chart_fetched [] (fst (parse_chart_tag (''chart:'' @ x))) (snd (parse_chart_tag (''chart:'' @ x)))
        today px dx s)
   \<and> on_chart_fetched [] cid days today px dx s =
      s\<lparr>dialogs := dialogs s @ [(''Chart error'', ''No OHLC data returned'')]\<rparr>
   \<and> chart_cache (on_chart_fetched [] cid days today px dx s) = chart_cache s
   \<and> (chart_cache s (Some c, Some d, today') = None \<longrightarrow>
        threads (state_of (start_chart_fetch c cname d today' dx' (on_chart_fetched [] cid days today px dx s))) =
          threads s @
            [FetchThread (MARKET_CHART_URL c) [(''vs_currency'', PStr ''usd''), (''days'', PInt d)]
               (''chart:'' @ c @ '':'' @ str_int d)])
   \<and> (chart_cache s (Some c, Some d, today') \<noteq> None \<longrightarrow>
        threads (state_of (start_chart_fetch c cname d today' dx' (on_chart_fetched [] cid days today px dx s))) =
          threads s)"
proof -
  let ?s1 = "on_chart_fetched [] cid days today px dx s"
  have a: "on_fetch_finished (Ohlc []) (''chart:'' @ x) today px dx s =
      Some (on_chart_fetched [] (fst (parse_chart_tag (''chart:'' @ x))) (snd (parse_chart_tag (''chart:'' @ x)))
        today px dx s)"
    unfolding on_fetch_finished_def
    by (simp only: chart_tag_not_markets chart_tag_startswith if_False if_True as_ohlc.simps
        option.case Let_def case_prod_beta)
  have b: "?s1 = s\<lparr>dialogs := dialogs s @ [(''Chart error'', ''No OHLC data returned'')]\<rparr>"
    by (rule on_chart_fetched_empty)
  have c: "chart_cache ?s1 = chart_cache s"
    by (simp add: on_chart_fetched_cache)
  have t: "threads ?s1 = threads s"
    by (rule on_chart_fetched_threads)
  have d: "threads (state_of (start_chart_fetch c cname d today' dx' ?s1)) =
          threads s @
            [FetchThread (MARKET_CHART_URL c) [(''vs_currency'', PStr ''usd''), (''days'', PInt d)]
               (''chart:'' @ c @ '':'' @ str_int d)]"
    if m: "chart_cache s (Some c, Some d, today') = None"
  proof -
    have m': "chart_cache ?s1 (Some c, Some d, today') = None"
      using m c by simp
    show ?thesis
      unfolding start_chart_fetch_miss_threads [OF m'] t by (rule refl)
  qed
  have e: "threads (state_of (start_chart_fetch c cname d today' dx' ?s1)) = threads s"
    if h: "chart_cache s (Some c, Some d, today') \<noteq> None"
  proof -
    from h obtain df where "chart_cache s (Some c, Some d, today') = Some df" by blast
    then have h': "chart_cache ?s1 (Some c, Some d, today') = Some df"
      using c by simp
    show ?thesis
      unfolding start_chart_fetch_hit_threads [OF h'] t by (rule refl)
  qed
  from a b c d e show ?thesis by blast
qed

theorem empty_payload_reported_not_cached_witness:
  "chart_cache (init :: rat tracker) (Some ''bitcoin'', Some 7, (2026, 1, 1)) = None
   \<and> threads (state_of (start_chart_fetch ''bitcoin'' ''Bitcoin'' 7 (2026, 1, 1) None
        (on_chart_fetched [] (Some ''bitcoin'') (Some 7) (2026, 1, 1) None None (init :: rat tracker)))) =
      threads (init :: rat tracker) @
        [FetchThread (MARKET_CHART_URL ''bitcoin'') [(''vs_currency'', PStr ''usd''), (''days'', PInt 7)]
           (''chart:'' @ ''bitcoin'' @ '':'' @ str_int 7)]
   \<and> chart_cache (on_chart_fetched [(0, 3 / 2, 2, 1, 7 / 4), (3600000, 7 / 4, 9 / 4, 3 / 2, 2)] (Some ''bitcoin'') (Some 7) (2026, 1, 1) None None (init :: rat tracker)) (Some ''bitcoin'', Some 7, (2026, 1, 1)) \<noteq> None
   \<and> threads (state_of (start_chart_fetch ''bitcoin'' ''Bitcoin'' 7 (2026, 1, 1) None
        (on_chart_fetched [] (Some ''bitcoin'') (Some 7) (2026, 1, 1) None None (on_chart_fetched [(0, 3 / 2, 2, 1, 7 / 4), (3600000, 7 / 4, 9 / 4, 3 / 2, 2)] (Some ''bitcoin'') (Some 7) (2026, 1, 1) None None (init :: rat tracker))))) =
      threads (on_chart_fetched [(0, 3 / 2, 2, 1, 7 / 4), (3600000, 7 / 4, 9 / 4, 3 / 2, 2)] (Some ''bitcoin'') (Some 7) (2026, 1, 1) None None (init :: rat tracker))"
proof -
  let ?s = "on_chart_fetched [(0, 3 / 2, 2, 1, 7 / 4), (3600000, 7 / 4, 9 / 4, 3 / 2, 2)] (Some ''bitcoin'') (Some 7) (2026, 1, 1) None None (init :: rat tracker)"
  have h: "chart_cache (init :: rat tracker) (Some ''bitcoin'', Some 7, (2026, 1, 1)) = None"
    by (simp add: init_chart_cache)
  have g: "chart_cache ?s (Some ''bitcoin'', Some 7, (2026, 1, 1)) \<noteq> None"
    by (simp add: on_chart_fetched_cache)
  from empty_payload_reported_not_cached
    [of "''bitcoin:7''" "(2026, 1, 1)" None None init "Some ''bitcoin''" "Some 7" "''bitcoin''" 7 "(2026, 1, 1)" "''Bitcoin''" None]
  have 1: "threads (state_of (start_chart_fetch ''bitcoin'' ''Bitcoin'' 7 (2026, 1, 1) None
        (on_chart_fetched [] (Some ''bitcoin'') (Some 7) (2026, 1, 1) None None (init :: rat tracker)))) =
      threads (init :: rat tracker) @
        [FetchThread (MARKET_CHART_URL ''bitcoin'') [(''vs_currency'', PStr ''usd''), (''days'', PInt 7)]
           (''chart:'' @ ''bitcoin'' @ '':'' @ str_int 7)]"
    using h by blast
  from empty_payload_reported_not_cached
    [of "''bitcoin:7''" "(2026, 1, 1)" None None ?s "Some ''bitcoin''" "Some 7" "''bitcoin''" 7 "(2026, 1, 1)" "''Bitcoin''" None]
  have 2: "threads (state_of (start_chart_fetch ''bitcoin'' ''Bitcoin'' 7 (2026, 1, 1) None
        (on_chart_fetched [] (Some ''bitcoin'') (Some 7) (2026, 1, 1) None None ?s))) = threads ?s"
    using g by blast
  from h g 1 2 show ?thesis by blast
qed




end
